theory Spec2Isabelle
  imports Complex_Main "HOL-Library.AList"
begin

section \<open>The trust network tracker of \<^verbatim>\<open>src/tools/trust_network.py\<close>\<close>

text \<open>
  The tracker keeps one profile per agent id in the dictionary \<^verbatim>\<open>self.trust_network\<close>
  and rewrites one JSON file after every update. The model below follows the class
  \<^verbatim>\<open>TrustNetworkTracker\<close> method by method.

  Conventions of the embedding:
  \<^item> Python floats (and the integer \<^verbatim>\<open>0\<close> a fresh profile starts with) are real numbers:
    the arithmetic is exact, rounding of binary floating point is not modelled.
  \<^item> A profile dictionary is a record with the six keys the code creates; the store is a
    partial map from agent ids to profiles. The model is of a tracker whose dictionary
    has this shape. \<^verbatim>\<open>__init__\<close> and \<^verbatim>\<open>_load_network\<close> are not part of it: they hand on
    whatever \<^verbatim>\<open>json.load\<close> returns, unchecked, so a file that holds other JSON gives a
    tracker outside this shape, whose later calls raise.
  \<^item> An exception is a value \<open>Inl e\<close>; a method returns its outcome together with the
    state it leaves behind, since Python keeps the mutations made before a raise.
  \<^item> An optional argument is an \<open>option\<close>; \<^verbatim>\<open>if x:\<close> is false for \<^verbatim>\<open>None\<close>, for the empty
    string and for the empty list.
\<close>

subsection \<open>Data\<close>

datatype py_error = ZeroDivisionError | KeyError | ValueError

record profile =
  interactions :: int
  reliability :: real
  interaction_quality :: real
  collaboration_style :: string
  strengths :: "string list"
  areas_for_growth :: "string list"

type_synonym store = "string \<rightharpoonup> profile"

text \<open>The dictionary literal of lines 120--127.\<close>

definition new_profile :: profile where
  "new_profile =
     \<lparr>interactions = 0, reliability = 0, interaction_quality = 0,
      collaboration_style = ''unknown'', strengths = [], areas_for_growth = []\<rparr>"

text \<open>
  The tracker object: the path of its JSON file and the in-memory dictionary.

  The file system, as far as \<^verbatim>\<open>_save_network\<close> touches it: a map from paths to what the
  file holds, and for each path what an attempt to write it comes to. A file holds a
  whole document or, after a write that failed part-way, a truncated text. The type
  \<open>'d\<close> of documents and the function \<open>json_dump\<close> of Python's \<^verbatim>\<open>json\<close> module, which
  turns the dictionary into the text written, are parameters. An attempt is
  \<open>Written\<close> when it succeeds, \<open>Refused\<close> when the directory cannot be created or the file
  cannot be opened, and \<open>Interrupted\<close> when the file was opened, which empties it, and
  the write then failed.
\<close>

record tracker =
  data_path :: string
  trust_network :: store

datatype 'd file_content = Document 'd | Truncated

datatype write_attempt = Written | Refused | Interrupted

record 'd disk =
  files :: "string \<rightharpoonup> 'd file_content"
  on_write :: "string \<Rightarrow> write_attempt"

subsection \<open>Saving (lines 82--93)\<close>

text \<open>
  \<^verbatim>\<open>_save_network\<close>: the directory is created, the file is opened with mode \<^verbatim>\<open>"w"\<close> and
  the whole dictionary is written. Every exception is caught and logged, so nothing
  reaches the caller: a refused attempt leaves the file as it was, an interrupted one
  leaves it truncated.
\<close>

definition save_network :: "(store \<Rightarrow> 'd) \<Rightarrow> tracker \<Rightarrow> 'd disk \<Rightarrow> 'd disk" where
  "save_network json_dump t dk =
     (case on_write dk (data_path t) of
        Written \<Rightarrow> dk\<lparr>files := (files dk)(data_path t \<mapsto> Document (json_dump (trust_network t)))\<rparr>
      | Refused \<Rightarrow> dk
      | Interrupted \<Rightarrow> dk\<lparr>files := (files dk)(data_path t \<mapsto> Truncated)\<rparr>)"

subsection \<open>\<^verbatim>\<open>update_trust\<close> (lines 95--168)\<close>

text \<open>
  The loops of lines 154--156 and 161--163: each item not yet in the list is appended, and
  the membership test sees the items appended earlier in the same loop.
\<close>

fun append_new :: "string list \<Rightarrow> string list \<Rightarrow> string list" where
  "append_new acc [] = acc"
| "append_new acc (x # xs) = append_new (if x \<in> set acc then acc else acc @ [x]) xs"

text \<open>
  Lines 118--163, the mutation of the dictionary. The division of line 138 raises when the
  incremented count is zero; by then the profile has been created (if it was absent) and
  its count incremented in place, which the returned store shows.
\<close>

definition update_trust_profile ::
  "store \<Rightarrow> string \<Rightarrow> real \<Rightarrow> real \<Rightarrow> string option \<Rightarrow> string list option \<Rightarrow>
   string list option \<Rightarrow> (py_error + profile) \<times> store" where
  "update_trust_profile tn agent_id quality reliability_score style strs areas =
     (let tn1 = (if tn agent_id = None then tn(agent_id \<mapsto> new_profile) else tn) in
      case tn1 agent_id of
        None \<Rightarrow> (Inl KeyError, tn1)
      | Some p0 \<Rightarrow>
          let p1 = p0\<lparr>interactions := interactions p0 + 1\<rparr>;
              interaction_count = interactions p1
          in if interaction_count = 0 then (Inl ZeroDivisionError, tn1(agent_id \<mapsto> p1))
             else
               let p2 = p1\<lparr>reliability :=
                          (reliability p1 * real_of_int (interaction_count - 1) + reliability_score)
                            / real_of_int interaction_count\<rparr>;
                   p3 = p2\<lparr>interaction_quality :=
                          (interaction_quality p2 * real_of_int (interaction_count - 1) + quality)
                            / real_of_int interaction_count\<rparr>;
                   p4 = (case style of
                           None \<Rightarrow> p3
                         | Some c \<Rightarrow> if c \<noteq> [] then p3\<lparr>collaboration_style := c\<rparr> else p3);
                   p5 = (case strs of
                           None \<Rightarrow> p4
                         | Some xs \<Rightarrow>
                             if xs \<noteq> [] then p4\<lparr>strengths := append_new (strengths p4) xs\<rparr> else p4);
                   p6 = (case areas of
                           None \<Rightarrow> p5
                         | Some xs \<Rightarrow>
                             if xs \<noteq> [] then p5\<lparr>areas_for_growth := append_new (areas_for_growth p5) xs\<rparr>
                             else p5)
               in (Inr p6, tn1(agent_id \<mapsto> p6)))"

text \<open>
  The whole method: the mutation, then \<^verbatim>\<open>self._save_network()\<close> (line 166), then the
  profile is returned. A raise in the mutation skips the save.
\<close>

definition update_trust ::
  "(store \<Rightarrow> 'd) \<Rightarrow> tracker \<times> 'd disk \<Rightarrow> string \<Rightarrow> real \<Rightarrow> real \<Rightarrow> string option \<Rightarrow>
   string list option \<Rightarrow> string list option \<Rightarrow> (py_error + profile) \<times> tracker \<times> 'd disk" where
  "update_trust json_dump w agent_id quality reliability_score style strs areas =
     (case w of (t, dk) \<Rightarrow>
        (case update_trust_profile (trust_network t) agent_id quality reliability_score style strs areas of
           (Inl e, tn') \<Rightarrow> (Inl e, t\<lparr>trust_network := tn'\<rparr>, dk)
         | (Inr p, tn') \<Rightarrow>
             (let t' = t\<lparr>trust_network := tn'\<rparr>
              in (Inr p, t', save_network json_dump t' dk))))"

subsection \<open>\<^verbatim>\<open>get_agent_profile\<close> (lines 170--182)\<close>

datatype profile_result = Profile profile | ProfileNotFound string

definition get_agent_profile :: "tracker \<Rightarrow> string \<Rightarrow> (py_error + profile_result) \<times> tracker" where
  "get_agent_profile t agent_id =
     (case trust_network t agent_id of
        Some p \<Rightarrow> (Inr (Profile p), t)
      | None \<Rightarrow> (Inr (ProfileNotFound ''Agent not found in trust network''), t))"

subsection \<open>\<^verbatim>\<open>get_collaboration_recommendation\<close> (lines 184--265)\<close>

record recommendation =
  collaboration_potential :: string
  collaboration_score :: real
  recommended_approach :: "string list"
  potential_challenges :: "string list"
  common_strengths :: "string list"
  unique_strengths :: "string list"
  agents :: store

datatype recommendation_result =
  NotFound string "string list"
| Recommendation recommendation

text \<open>\<^verbatim>\<open>self.trust_network[agent_id]\<close> for each requested id; a missing key raises.\<close>

fun lookup_all :: "store \<Rightarrow> string list \<Rightarrow> py_error + profile list" where
  "lookup_all tn [] = Inr []"
| "lookup_all tn (a # as) =
     (case tn a of
        None \<Rightarrow> Inl KeyError
      | Some p \<Rightarrow> (case lookup_all tn as of Inl e \<Rightarrow> Inl e | Inr ps \<Rightarrow> Inr (p # ps)))"

text \<open>The if-chain of lines 208--215.\<close>

definition potential_of :: "real \<Rightarrow> string" where
  "potential_of score =
     (if score \<ge> 0.8 then ''very high''
      else if score \<ge> 0.6 then ''high''
      else if score \<ge> 0.4 then ''moderate''
      else ''challenging'')"

text \<open>
  Lines 223--225: the dictionary of counts, line 225 being one step of the loop. A Python
  dictionary keeps its keys in the order of their first insertion, which is what
  \<open>AList.update\<close> does, and the two comprehensions of lines 228--229 walk it in that
  order.
\<close>

definition count_one :: "string \<Rightarrow> (string \<times> nat) list \<Rightarrow> (string \<times> nat) list" where
  "count_one strength counts =
     AList.update strength ((case map_of counts strength of None \<Rightarrow> 0 | Some c \<Rightarrow> c) + 1) counts"

definition count_strengths :: "string list \<Rightarrow> (string \<times> nat) list" where
  "count_strengths all_strengths = fold count_one all_strengths []"

text \<open>\<^verbatim>\<open>', '.join(xs)\<close>.\<close>

fun join :: "string \<Rightarrow> string list \<Rightarrow> string" where
  "join sep [] = []"
| "join sep [x] = x"
| "join sep (x # y # ys) = x @ sep @ join sep (y # ys)"

text \<open>
  \<^verbatim>\<open>round(x, 2)\<close>: the nearest multiple of one hundredth, a tie going to the even
  neighbour.
\<close>

definition round2 :: "real \<Rightarrow> real" where
  "round2 x =
     (let y = x * 100; f = \<lfloor>y\<rfloor>; d = y - of_int f
      in of_int (if d < 1/2 then f else if d > 1/2 then f + 1 else if even f then f else f + 1) / 100)"

definition style_challenge :: string where
  "style_challenge = ''Different collaboration styles may require adaptation''"

definition reliability_challenge :: string where
  "reliability_challenge = ''Significant reliability differences between agents''"

text \<open>
  The method. It only reads the dictionary, so the tracker comes back as it was. The
  division of line 203 raises on the empty list of ids, before anything else is computed;
  \<^verbatim>\<open>max\<close> and \<^verbatim>\<open>min\<close> of line 253 raise on an empty list.
\<close>

definition get_collaboration_recommendation ::
  "tracker \<Rightarrow> string list \<Rightarrow> (py_error + recommendation_result) \<times> tracker" where
  "get_collaboration_recommendation t agent_ids =
     (let tn = trust_network t;
          missing_agents = filter (\<lambda>agent_id. tn agent_id = None) agent_ids
      in if missing_agents \<noteq> []
         then (Inr (NotFound ''Agents not found in trust network'' missing_agents), t)
         else
           case lookup_all tn agent_ids of
             Inl e \<Rightarrow> (Inl e, t)
           | Inr profiles \<Rightarrow>
               if length agent_ids = 0 then (Inl ZeroDivisionError, t)
               else
                 let avg_reliability = sum_list (map reliability profiles) / real (length agent_ids);
                     avg_quality = sum_list (map interaction_quality profiles) / real (length agent_ids);
                     score = (avg_reliability + avg_quality) / 2;
                     potential = potential_of score;
                     all_strengths = concat (map strengths profiles);
                     strength_counts = count_strengths all_strengths;
                     common = map fst (filter (\<lambda>(s, count). count > 1) strength_counts);
                     unique = map fst (filter (\<lambda>(s, count). count = 1) strength_counts);
                     approach =
                       (if common \<noteq> [] then [''Leverage common strengths: '' @ join '', '' common] else [])
                       @ (if unique \<noteq> [] then [''Assign tasks based on unique agent strengths''] else [])
                       @ (if avg_reliability < 0.5
                          then [''Implement verification steps to ensure reliability''] else []);
                     styles = set (map collaboration_style profiles);
                     challenges1 =
                       (if card styles > 1 \<and> ''unknown'' \<notin> styles then [style_challenge] else []);
                     reliability_values = map reliability profiles
                 in (case reliability_values of
                       [] \<Rightarrow> (Inl ValueError, t)
                     | r # rs \<Rightarrow>
                         let challenges =
                               challenges1 @
                               (if fold max rs r - fold min rs r > 0.3 then [reliability_challenge] else [])
                         in (Inr (Recommendation
                                   \<lparr>collaboration_potential = potential,
                                    collaboration_score = round2 score,
                                    recommended_approach = approach,
                                    potential_challenges = challenges,
                                    common_strengths = common,
                                    unique_strengths = unique,
                                    agents = (\<lambda>a. if a \<in> set agent_ids then tn a else None)\<rparr>), t)))"

subsection \<open>Sequences of calls\<close>

text \<open>
  One call of \<^verbatim>\<open>update_trust\<close> with its arguments, and a caller that makes a list of
  calls one after the other on the same tracker. A call that raises leaves the tracker as
  the raise left it and the next call goes on from there.
\<close>

record observation =
  obs_agent :: string
  obs_quality :: real
  obs_reliability :: real
  obs_style :: "string option"
  obs_strengths :: "string list option"
  obs_areas :: "string list option"

definition observe_store :: "store \<Rightarrow> observation \<Rightarrow> store" where
  "observe_store tn ob =
     snd (update_trust_profile tn (obs_agent ob) (obs_quality ob) (obs_reliability ob)
            (obs_style ob) (obs_strengths ob) (obs_areas ob))"

definition observe :: "(store \<Rightarrow> 'd) \<Rightarrow> tracker \<times> 'd disk \<Rightarrow> observation \<Rightarrow> tracker \<times> 'd disk" where
  "observe json_dump w ob =
     snd (update_trust json_dump w (obs_agent ob) (obs_quality ob) (obs_reliability ob)
            (obs_style ob) (obs_strengths ob) (obs_areas ob))"

definition observe_all ::
  "(store \<Rightarrow> 'd) \<Rightarrow> tracker \<times> 'd disk \<Rightarrow> observation list \<Rightarrow> tracker \<times> 'd disk" where
  "observe_all json_dump w obs = fold (\<lambda>ob w. observe json_dump w ob) obs w"

text \<open>
  The profile the next update of an agent starts from: the stored one, or the fresh one
  of lines 120--127 when the agent has none.
\<close>

definition current :: "store \<Rightarrow> string \<Rightarrow> profile" where
  "current tn a = (case tn a of None \<Rightarrow> new_profile | Some p \<Rightarrow> p)"

text \<open>
  The states a tracker reaches from an empty dictionary when every score it is given lies
  between 0 and 1.
\<close>

inductive reachable :: "(store \<Rightarrow> 'd) \<Rightarrow> tracker \<times> 'd disk \<Rightarrow> bool"
  for json_dump :: "store \<Rightarrow> 'd" where
  reachable_empty: "trust_network t = Map.empty \<Longrightarrow> reachable json_dump (t, dk)"
| reachable_update:
    "reachable json_dump w \<Longrightarrow> 0 \<le> quality \<Longrightarrow> quality \<le> 1 \<Longrightarrow>
     0 \<le> reliability_score \<Longrightarrow> reliability_score \<le> 1 \<Longrightarrow>
     reachable json_dump
       (snd (update_trust json_dump w agent_id quality reliability_score style strs areas))"

definition in_unit_interval :: "store \<Rightarrow> bool" where
  "in_unit_interval tn =
     (\<forall>a p. tn a = Some p \<longrightarrow>
        0 \<le> reliability p \<and> reliability p \<le> 1
        \<and> 0 \<le> interaction_quality p \<and> interaction_quality p \<le> 1)"

abbreviation observe_store_all :: "store \<Rightarrow> observation list \<Rightarrow> store" where
  "observe_store_all tn obs \<equiv> fold (\<lambda>ob tn. observe_store tn ob) obs tn"

text \<open>What a call supplies for a list argument: nothing when the argument is absent.\<close>

definition supplied :: "string list option \<Rightarrow> string list" where
  "supplied arg = (case arg of None \<Rightarrow> [] | Some xs \<Rightarrow> xs)"

text \<open>
  The two conditions on stored profiles that the calls preserve: a profile whose count is
  not negative and whose lists have no duplicates, and a store whose counts are not
  negative and whose averages lie in [0,1].
\<close>

definition listed_once :: "profile \<Rightarrow> bool" where
  "listed_once p =
     (0 \<le> interactions p \<and> distinct (strengths p) \<and> distinct (areas_for_growth p))"

definition sound_store :: "store \<Rightarrow> bool" where
  "sound_store tn =
     (\<forall>a p. tn a = Some p \<longrightarrow>
        0 \<le> interactions p
        \<and> 0 \<le> reliability p \<and> reliability p \<le> 1
        \<and> 0 \<le> interaction_quality p \<and> interaction_quality p \<le> 1)"

text \<open>
  The running totals behind the two averages: after the observations \<open>mine\<close> of an
  agent, its count is their number and each average times the count is the sum of the
  values supplied.
\<close>

definition tally :: "store \<Rightarrow> string \<Rightarrow> observation list \<Rightarrow> bool" where
  "tally tn a mine =
     (interactions (current tn a) = int (length mine)
      \<and> reliability (current tn a) * real (length mine) = sum_list (map obs_reliability mine)
      \<and> interaction_quality (current tn a) * real (length mine) = sum_list (map obs_quality mine)
      \<and> (tn a = None \<longleftrightarrow> mine = []))"

subsection \<open>The notions the recommendation is specified with\<close>

text \<open>
  The profiles of the requested agents, the set of their collaboration styles, the score
  before it is rounded, how often a strength occurs in their lists taken together, and
  how many different requested agents list it.
\<close>

definition recommendation_of ::
  "(py_error + recommendation_result) \<times> tracker \<Rightarrow> recommendation option" where
  "recommendation_of out =
     (case fst out of Inr (Recommendation r) \<Rightarrow> Some r | Inr (NotFound m ms) \<Rightarrow> None | Inl e \<Rightarrow> None)"

definition requested_profiles :: "tracker \<Rightarrow> string list \<Rightarrow> profile list" where
  "requested_profiles t agent_ids = List.map_filter (trust_network t) agent_ids"

definition requested_styles :: "tracker \<Rightarrow> string list \<Rightarrow> string set" where
  "requested_styles t agent_ids = set (map collaboration_style (requested_profiles t agent_ids))"

definition raw_score :: "tracker \<Rightarrow> string list \<Rightarrow> real" where
  "raw_score t agent_ids =
     (let ps = requested_profiles t agent_ids
      in (sum_list (map reliability ps) / real (length ps)
          + sum_list (map interaction_quality ps) / real (length ps)) / 2)"

definition occurrences :: "tracker \<Rightarrow> string list \<Rightarrow> string \<Rightarrow> nat" where
  "occurrences t agent_ids x =
     count_list (concat (map strengths (requested_profiles t agent_ids))) x"

definition agents_listing :: "tracker \<Rightarrow> string list \<Rightarrow> string \<Rightarrow> nat" where
  "agents_listing t agent_ids x =
     length (filter (\<lambda>a. case trust_network t a of None \<Rightarrow> False | Some p \<Rightarrow> x \<in> set (strengths p))
               (remdups agent_ids))"

subsection \<open>Concrete trackers\<close>

text \<open>
  A tracker that found no file, on a disk where every write succeeds, and the calls of
  the example scenario: \<^verbatim>\<open>agent1\<close> observed twice, a second agent that shares one strength,
  and a third agent observed without style or strengths.
\<close>

definition no_dump :: "store \<Rightarrow> unit" where
  "no_dump tn = ()"

definition fresh_world :: "tracker \<times> unit disk" where
  "fresh_world =
     (\<lparr>data_path = ''data/trust_network.json'', trust_network = Map.empty\<rparr>,
      \<lparr>files = Map.empty, on_write = (\<lambda>p. Written)\<rparr>)"

definition obs1 :: observation where
  "obs1 = \<lparr>obs_agent = ''agent1'', obs_quality = 0.85, obs_reliability = 0.92,
            obs_style = Some ''analytical'', obs_strengths = Some [''data analysis''],
            obs_areas = None\<rparr>"

definition obs2 :: observation where
  "obs2 = \<lparr>obs_agent = ''agent1'', obs_quality = 0.75, obs_reliability = 0.80,
            obs_style = None, obs_strengths = None, obs_areas = None\<rparr>"

definition obs3 :: observation where
  "obs3 = \<lparr>obs_agent = ''agent2'', obs_quality = 0.78, obs_reliability = 0.75,
            obs_style = Some ''exploratory'',
            obs_strengths = Some [''storytelling'', ''data analysis''],
            obs_areas = Some [''factual accuracy'']\<rparr>"

definition obs4 :: observation where
  "obs4 = \<lparr>obs_agent = ''agent3'', obs_quality = 0.5, obs_reliability = 0.5,
            obs_style = None, obs_strengths = None, obs_areas = None\<rparr>"

definition obs5 :: observation where
  "obs5 = \<lparr>obs_agent = ''agent1'', obs_quality = 0.9, obs_reliability = 0.9,
            obs_style = Some '''',
            obs_strengths = Some [''data analysis'', ''summarization'', ''summarization''],
            obs_areas = Some [''creative problem-solving'']\<rparr>"

definition demo_tracker :: tracker where
  "demo_tracker = fst (observe_all no_dump fresh_world [obs1, obs3, obs4])"

text \<open>A tracker holding one agent whose reliability and interaction quality are both \<open>x\<close>.\<close>

definition scored :: "real \<Rightarrow> tracker" where
  "scored x =
     fst (observe no_dump fresh_world
            \<lparr>obs_agent = ''agent1'', obs_quality = x, obs_reliability = x,
             obs_style = None, obs_strengths = None, obs_areas = None\<rparr>)"

section \<open>Properties of \<^verbatim>\<open>update_trust\<close>\<close>

subsection \<open>What one call does\<close>

lemma update_trust_profile_Inr:
  assumes "interactions (current tn a) + 1 \<noteq> 0"
  shows "update_trust_profile tn a q r cs st ar =
     (let p0 = current tn a; n = interactions p0 + 1;
          p' = \<lparr>interactions = n,
                reliability = (reliability p0 * real_of_int (n - 1) + r) / real_of_int n,
                interaction_quality = (interaction_quality p0 * real_of_int (n - 1) + q) / real_of_int n,
                collaboration_style = (case cs of None \<Rightarrow> collaboration_style p0
                                       | Some c \<Rightarrow> if c \<noteq> [] then c else collaboration_style p0),
                strengths = (case st of None \<Rightarrow> strengths p0 | Some xs \<Rightarrow> append_new (strengths p0) xs),
                areas_for_growth = (case ar of None \<Rightarrow> areas_for_growth p0
                                    | Some xs \<Rightarrow> append_new (areas_for_growth p0) xs)\<rparr>
      in (Inr p', tn(a \<mapsto> p')))"
  using assms
  by (cases "tn a"; cases cs; cases st; cases ar)
     (auto simp: update_trust_profile_def current_def Let_def new_profile_def)

lemma update_trust_trust_network:
  "trust_network (fst (snd (update_trust jd (t, dk) a q r cs st ar))) =
     snd (update_trust_profile (trust_network t) a q r cs st ar)"
  by (auto simp: update_trust_def Let_def split: prod.splits sum.splits)

lemma update_trust_outcome:
  "fst (update_trust jd (t, dk) a q r cs st ar) =
     fst (update_trust_profile (trust_network t) a q r cs st ar)"
  by (auto simp: update_trust_def Let_def split: prod.splits sum.splits)

lemma update_trust_profile_other:
  "b \<noteq> a \<Longrightarrow> snd (update_trust_profile tn b q r cs st ar) a = tn a"
  by (auto simp: update_trust_profile_def Let_def split: option.splits)

lemma observe_trust_network:
  "trust_network (fst (observe jd w ob)) = observe_store (trust_network (fst w)) ob"
  by (cases w) (simp add: observe_def observe_store_def update_trust_trust_network)

lemma observe_all_trust_network:
  "trust_network (fst (observe_all jd w obs)) =
     fold (\<lambda>ob tn. observe_store tn ob) obs (trust_network (fst w))"
  unfolding observe_all_def
  by (induction obs arbitrary: w) (simp_all add: observe_trust_network)

lemma observe_all_snoc:
  "observe_all jd w (pre @ [ob]) = observe jd (observe_all jd w pre) ob"
  by (simp add: observe_all_def)

lemma observe_store_other:
  "obs_agent ob \<noteq> a \<Longrightarrow> observe_store tn ob a = tn a"
  by (simp add: observe_store_def update_trust_profile_other)

subsection \<open>The concrete trackers, evaluated\<close>

lemma demo_store:
  "trust_network demo_tracker =
     [''agent1'' \<mapsto> \<lparr>interactions = 1, reliability = 0.92, interaction_quality = 0.85,
                      collaboration_style = ''analytical'', strengths = [''data analysis''],
                      areas_for_growth = []\<rparr>,
      ''agent2'' \<mapsto> \<lparr>interactions = 1, reliability = 0.75, interaction_quality = 0.78,
                      collaboration_style = ''exploratory'',
                      strengths = [''storytelling'', ''data analysis''],
                      areas_for_growth = [''factual accuracy'']\<rparr>,
      ''agent3'' \<mapsto> \<lparr>interactions = 1, reliability = 0.5, interaction_quality = 0.5,
                      collaboration_style = ''unknown'', strengths = [], areas_for_growth = []\<rparr>]"
  by (simp add: demo_tracker_def observe_all_trust_network fresh_world_def observe_store_def
      obs1_def obs3_def obs4_def update_trust_profile_def new_profile_def Let_def)

subsection \<open>Running averages\<close>

lemma observe_store_same:
  assumes "interactions (current tn a) + 1 \<noteq> 0" and "obs_agent ob = a"
  shows "\<exists>p. observe_store tn ob a = Some p
           \<and> interactions p = interactions (current tn a) + 1
           \<and> reliability p * real_of_int (interactions p)
               = reliability (current tn a) * real_of_int (interactions (current tn a)) + obs_reliability ob
           \<and> interaction_quality p * real_of_int (interactions p)
               = interaction_quality (current tn a) * real_of_int (interactions (current tn a)) + obs_quality ob"
  using assms
  by (simp add: observe_store_def update_trust_profile_Inr Let_def)

lemma tally_fold:
  assumes "tn a = None"
  shows "tally (fold (\<lambda>ob tn. observe_store tn ob) obs tn) a (filter (\<lambda>ob. obs_agent ob = a) obs)"
proof (induction obs rule: rev_induct)
  case Nil
  with assms show ?case by (simp add: tally_def current_def new_profile_def)
next
  case (snoc ob obs)
  let ?tn = "fold (\<lambda>ob tn. observe_store tn ob) obs tn"
  let ?mine = "filter (\<lambda>ob. obs_agent ob = a) obs"
  show ?case
  proof (cases "obs_agent ob = a")
    case False
    then have "observe_store ?tn ob a = ?tn a" by (rule observe_store_other)
    with snoc False show ?thesis by (simp add: tally_def current_def)
  next
    case True
    from snoc have n: "interactions (current ?tn a) = int (length ?mine)" by (simp add: tally_def)
    then have "interactions (current ?tn a) + 1 \<noteq> 0" by linarith
    from observe_store_same [OF this True] obtain p where
      p: "observe_store ?tn ob a = Some p"
         "interactions p = interactions (current ?tn a) + 1"
         "reliability p * real_of_int (interactions p)
            = reliability (current ?tn a) * real_of_int (interactions (current ?tn a)) + obs_reliability ob"
         "interaction_quality p * real_of_int (interactions p)
            = interaction_quality (current ?tn a) * real_of_int (interactions (current ?tn a)) + obs_quality ob"
      by blast
    from p(1) have cur: "current (observe_store ?tn ob) a = p" by (simp add: current_def)
    from snoc have s: "reliability (current ?tn a) * real (length ?mine) = sum_list (map obs_reliability ?mine)"
      "interaction_quality (current ?tn a) * real (length ?mine) = sum_list (map obs_quality ?mine)"
      by (simp_all add: tally_def)
    have len: "real_of_int (interactions p) = real (length ?mine) + 1" using p(2) n by simp
    have "reliability p * (real (length ?mine) + 1) = sum_list (map obs_reliability ?mine) + obs_reliability ob"
      using p(3) n s(1) len by simp
    moreover have "interaction_quality p * (real (length ?mine) + 1) = sum_list (map obs_quality ?mine) + obs_quality ob"
      using p(4) n s(2) len by simp
    ultimately show ?thesis using True p(1,2) n cur
      by (simp add: tally_def algebra_simps)
  qed
qed

text \<open>
  C1. Starting from a tracker that has no profile for an agent, after any list of calls
  (calls for other agents may come in between, and each call may or may not carry style
  and strengths) the stored reliability of the agent is the arithmetic mean of the
  reliability values of its calls, its interaction quality is the mean of their quality
  values and its count is their number. Each of its calls applies the rule
  new average = (old average * (n - 1) + new value) / n, with \<open>n\<close> the count after the
  increment.
\<close>

theorem incremental_mean:
  assumes absent: "trust_network (fst w) a = None"
    and mine: "mine = filter (\<lambda>ob. obs_agent ob = a) obs"
    and nonempty: "mine \<noteq> []"
  shows "(\<exists>p. trust_network (fst (observe_all jd w obs)) a = Some p
            \<and> interactions p = int (length mine)
            \<and> reliability p = sum_list (map obs_reliability mine) / real (length mine)
            \<and> interaction_quality p = sum_list (map obs_quality mine) / real (length mine))
       \<and> (\<forall>pre ob post. obs = pre @ ob # post \<and> obs_agent ob = a \<longrightarrow>
            (let old = current (trust_network (fst (observe_all jd w pre))) a;
                 new = current (trust_network (fst (observe_all jd w (pre @ [ob])))) a;
                 n = interactions new
             in n = interactions old + 1
                \<and> reliability new = (reliability old * real_of_int (n - 1) + obs_reliability ob) / real_of_int n
                \<and> interaction_quality new
                    = (interaction_quality old * real_of_int (n - 1) + obs_quality ob) / real_of_int n))"
proof (intro conjI allI impI)
  let ?tn = "trust_network (fst (observe_all jd w obs))"
  have t: "tally ?tn a mine"
    unfolding observe_all_trust_network mine
    using absent by (rule tally_fold [of "trust_network (fst w)" a obs])
  with nonempty obtain p where p: "?tn a = Some p" by (auto simp: tally_def)
  then have cur: "current ?tn a = p" by (simp add: current_def)
  from nonempty have pos: "real (length mine) \<noteq> 0" by simp
  from t cur have "interactions p = int (length mine)"
    "reliability p * real (length mine) = sum_list (map obs_reliability mine)"
    "interaction_quality p * real (length mine) = sum_list (map obs_quality mine)"
    by (simp_all add: tally_def)
  with pos p show "\<exists>p. ?tn a = Some p
            \<and> interactions p = int (length mine)
            \<and> reliability p = sum_list (map obs_reliability mine) / real (length mine)
            \<and> interaction_quality p = sum_list (map obs_quality mine) / real (length mine)"
    by (simp add: nonzero_eq_divide_eq)
next
  fix pre ob post
  assume "obs = pre @ ob # post \<and> obs_agent ob = a"
  then have ob: "obs_agent ob = a" by simp
  let ?tn = "trust_network (fst (observe_all jd w pre))"
  have "tally ?tn a (filter (\<lambda>ob. obs_agent ob = a) pre)"
    unfolding observe_all_trust_network
    using absent by (rule tally_fold [of "trust_network (fst w)" a pre])
  then have "interactions (current ?tn a) + 1 \<noteq> 0" by (simp add: tally_def)
  then have "update_trust_profile ?tn a (obs_quality ob) (obs_reliability ob)
               (obs_style ob) (obs_strengths ob) (obs_areas ob) = 
     (let p0 = current ?tn a; n = interactions p0 + 1;
          p' = \<lparr>interactions = n,
                reliability = (reliability p0 * real_of_int (n - 1) + obs_reliability ob) / real_of_int n,
                interaction_quality = (interaction_quality p0 * real_of_int (n - 1) + obs_quality ob) / real_of_int n,
                collaboration_style = (case obs_style ob of None \<Rightarrow> collaboration_style p0
                                       | Some c \<Rightarrow> if c \<noteq> [] then c else collaboration_style p0),
                strengths = (case obs_strengths ob of None \<Rightarrow> strengths p0 | Some xs \<Rightarrow> append_new (strengths p0) xs),
                areas_for_growth = (case obs_areas ob of None \<Rightarrow> areas_for_growth p0
                                    | Some xs \<Rightarrow> append_new (areas_for_growth p0) xs)\<rparr>
      in (Inr p', ?tn(a \<mapsto> p')))"
    by (rule update_trust_profile_Inr)
  then show "let old = current ?tn a;
                 new = current (trust_network (fst (observe_all jd w (pre @ [ob])))) a;
                 n = interactions new
             in n = interactions old + 1
                \<and> reliability new = (reliability old * real_of_int (n - 1) + obs_reliability ob) / real_of_int n
                \<and> interaction_quality new
                    = (interaction_quality old * real_of_int (n - 1) + obs_quality ob) / real_of_int n"
    using ob
    by (simp add: observe_all_snoc observe_trust_network observe_store_def Let_def current_def)
qed

theorem incremental_mean_witness:
  "trust_network (fst fresh_world) ''agent1'' = None
   \<and> (\<exists>p. trust_network (fst (observe_all no_dump fresh_world [obs1, obs2])) ''agent1'' = Some p
          \<and> interactions p = 2 \<and> reliability p = 0.86 \<and> interaction_quality p = 0.8)"
  using incremental_mean [of fresh_world "''agent1''" "[obs1, obs2]" "[obs1, obs2]" no_dump]
  by (simp add: fresh_world_def obs1_def obs2_def)

subsection \<open>Strengths and areas for growth\<close>

lemma set_append_new: "set (append_new acc xs) = set acc \<union> set xs"
  by (induction xs arbitrary: acc) auto

lemma distinct_append_new: "distinct acc \<Longrightarrow> distinct (append_new acc xs)"
  by (induction xs arbitrary: acc) auto

lemma current_update [simp]: "current (tn(a \<mapsto> p)) a = p"
  by (simp add: current_def)

lemma current_observe_same:
  assumes "0 \<le> interactions (current tn a)" and "obs_agent ob = a"
  shows "current (observe_store tn ob) a =
     (let p0 = current tn a; n = interactions p0 + 1
      in \<lparr>interactions = n,
          reliability = (reliability p0 * real_of_int (n - 1) + obs_reliability ob) / real_of_int n,
          interaction_quality = (interaction_quality p0 * real_of_int (n - 1) + obs_quality ob) / real_of_int n,
          collaboration_style = (case obs_style ob of None \<Rightarrow> collaboration_style p0
                                 | Some c \<Rightarrow> if c \<noteq> [] then c else collaboration_style p0),
          strengths = append_new (strengths p0) (supplied (obs_strengths ob)),
          areas_for_growth = append_new (areas_for_growth p0) (supplied (obs_areas ob))\<rparr>)"
proof -
  from assms(1) have "interactions (current tn a) + 1 \<noteq> 0" by linarith
  then show ?thesis
    using assms(2)
    by (simp add: observe_store_def update_trust_profile_Inr Let_def supplied_def split: option.split)
qed

lemma current_observe_other:
  "obs_agent ob \<noteq> a \<Longrightarrow> current (observe_store tn ob) a = current tn a"
  by (simp add: current_def observe_store_other)

lemma lists_never_shrink:
  "set (strengths (current tn a)) \<subseteq> set (strengths (current (observe_store tn ob) a))
   \<and> set (areas_for_growth (current tn a)) \<subseteq> set (areas_for_growth (current (observe_store tn ob) a))"
proof (cases "obs_agent ob = a")
  case False
  then show ?thesis by (simp add: current_observe_other)
next
  case True
  then show ?thesis
    by (auto simp: observe_store_def update_trust_profile_def current_def Let_def new_profile_def
        set_append_new split: option.splits)
qed

lemma listed_once_observe:
  assumes "listed_once (current tn a)"
  shows "listed_once (current (observe_store tn ob) a)"
proof (cases "obs_agent ob = a")
  case False
  with assms show ?thesis by (simp add: current_observe_other)
next
  case True
  from assms have "0 \<le> interactions (current tn a)" by (simp add: listed_once_def)
  from current_observe_same [OF this True] assms show ?thesis
    by (simp add: listed_once_def Let_def distinct_append_new)
qed

lemma supplied_kept:
  assumes "listed_once (current tn a)" and "obs_agent ob = a"
  shows "set (supplied (obs_strengths ob)) \<subseteq> set (strengths (current (observe_store tn ob) a))
       \<and> set (supplied (obs_areas ob)) \<subseteq> set (areas_for_growth (current (observe_store tn ob) a))"
proof -
  from assms have "0 \<le> interactions (current tn a)" by (simp add: listed_once_def)
  from current_observe_same [OF this assms(2)] show ?thesis
    by (simp add: Let_def set_append_new)
qed

lemma all_never_shrink:
  "set (strengths (current tn a)) \<subseteq> set (strengths (current (observe_store_all tn obs) a))
   \<and> set (areas_for_growth (current tn a)) \<subseteq> set (areas_for_growth (current (observe_store_all tn obs) a))"
proof (induction obs arbitrary: tn)
  case Nil
  show ?case by simp
next
  case (Cons ob obs)
  from lists_never_shrink [of tn a ob] Cons [of "observe_store tn ob"]
  show ?case by auto
qed

lemma all_listed_once:
  "listed_once (current tn a) \<Longrightarrow> listed_once (current (observe_store_all tn obs) a)"
  by (induction obs arbitrary: tn) (simp_all add: listed_once_observe)

lemma all_keep_supplied:
  assumes "listed_once (current tn a)" and "ob \<in> set obs" and "obs_agent ob = a"
  shows "set (supplied (obs_strengths ob)) \<subseteq> set (strengths (current (observe_store_all tn obs) a))
       \<and> set (supplied (obs_areas ob)) \<subseteq> set (areas_for_growth (current (observe_store_all tn obs) a))"
  using assms
proof (induction obs arbitrary: tn)
  case Nil
  then show ?case by simp
next
  case (Cons o1 obs)
  have l: "listed_once (current (observe_store tn o1) a)"
    using Cons.prems(1) by (rule listed_once_observe)
  show ?case
  proof (cases "ob = o1")
    case True
    from supplied_kept [OF Cons.prems(1) Cons.prems(3)] True
      all_never_shrink [of "observe_store tn o1" a obs]
    show ?thesis by auto
  next
    case False
    with Cons.prems have "ob \<in> set obs" by simp
    from Cons.IH [OF l this Cons.prems(3)] show ?thesis by simp
  qed
qed

text \<open>
  C6. For an agent whose profile is absent, or present with a count that is not negative
  and lists without duplicates, after any list of calls the strengths and the areas for
  growth of the agent contain every element of every list supplied for it, contain no
  duplicate, and contain whatever they contained after any earlier part of the calls.
\<close>

theorem strengths_grow:
  assumes "listed_once (current (trust_network (fst w)) a)"
  shows "(\<forall>ob \<in> set obs. obs_agent ob = a \<longrightarrow>
            set (supplied (obs_strengths ob))
              \<subseteq> set (strengths (current (trust_network (fst (observe_all jd w obs))) a))
            \<and> set (supplied (obs_areas ob))
              \<subseteq> set (areas_for_growth (current (trust_network (fst (observe_all jd w obs))) a)))
       \<and> distinct (strengths (current (trust_network (fst (observe_all jd w obs))) a))
       \<and> distinct (areas_for_growth (current (trust_network (fst (observe_all jd w obs))) a))
       \<and> (\<forall>pre post. obs = pre @ post \<longrightarrow>
            set (strengths (current (trust_network (fst (observe_all jd w pre))) a))
              \<subseteq> set (strengths (current (trust_network (fst (observe_all jd w obs))) a))
            \<and> set (areas_for_growth (current (trust_network (fst (observe_all jd w pre))) a))
              \<subseteq> set (areas_for_growth (current (trust_network (fst (observe_all jd w obs))) a)))"
proof (intro conjI ballI allI impI)
  fix ob assume "ob \<in> set obs" "obs_agent ob = a"
  from all_keep_supplied [OF assms this]
  show "set (supplied (obs_strengths ob))
          \<subseteq> set (strengths (current (trust_network (fst (observe_all jd w obs))) a))"
    and "set (supplied (obs_areas ob))
          \<subseteq> set (areas_for_growth (current (trust_network (fst (observe_all jd w obs))) a))"
    by (simp_all add: observe_all_trust_network)
next
  from all_listed_once [OF assms, of obs]
  show "distinct (strengths (current (trust_network (fst (observe_all jd w obs))) a))"
    and "distinct (areas_for_growth (current (trust_network (fst (observe_all jd w obs))) a))"
    by (simp_all add: observe_all_trust_network listed_once_def)
next
  fix pre post assume "obs = pre @ post"
  with all_never_shrink [of "observe_store_all (trust_network (fst w)) pre" a post]
  show "set (strengths (current (trust_network (fst (observe_all jd w pre))) a))
          \<subseteq> set (strengths (current (trust_network (fst (observe_all jd w obs))) a))"
    and "set (areas_for_growth (current (trust_network (fst (observe_all jd w pre))) a))
          \<subseteq> set (areas_for_growth (current (trust_network (fst (observe_all jd w obs))) a))"
    by (simp_all add: observe_all_trust_network)
qed

lemma grown_store:
  "trust_network (fst (observe_all no_dump fresh_world [obs1, obs5])) ''agent1'' =
     Some \<lparr>interactions = 2, reliability = 0.91, interaction_quality = 0.875,
           collaboration_style = ''analytical'',
           strengths = [''data analysis'', ''summarization''],
           areas_for_growth = [''creative problem-solving'']\<rparr>"
  by (simp add: observe_all_trust_network fresh_world_def observe_store_def
      obs1_def obs5_def update_trust_profile_def new_profile_def Let_def)

theorem strengths_grow_witness:
  "listed_once (current (trust_network (fst fresh_world)) ''agent1'')
   \<and> strengths (current (trust_network (fst (observe_all no_dump fresh_world [obs1, obs5]))) ''agent1'')
       = [''data analysis'', ''summarization'']
   \<and> set (supplied (obs_strengths obs5))
       \<subseteq> set (strengths (current (trust_network (fst (observe_all no_dump fresh_world [obs1, obs5]))) ''agent1''))
   \<and> distinct (strengths (current (trust_network (fst (observe_all no_dump fresh_world [obs1, obs5]))) ''agent1''))
   \<and> distinct (areas_for_growth (current (trust_network (fst (observe_all no_dump fresh_world [obs1, obs5]))) ''agent1''))"
proof -
  have l: "listed_once (current (trust_network (fst fresh_world)) ''agent1'')"
    by (simp add: fresh_world_def current_def new_profile_def listed_once_def)
  have c: "current (trust_network (fst (observe_all no_dump fresh_world [obs1, obs5]))) ''agent1'' =
      \<lparr>interactions = 2, reliability = 0.91, interaction_quality = 0.875,
       collaboration_style = ''analytical'',
       strengths = [''data analysis'', ''summarization''],
       areas_for_growth = [''creative problem-solving'']\<rparr>"
    by (simp add: grown_store current_def)
  from strengths_grow [OF l, of "[obs1, obs5]" no_dump] l show ?thesis
    unfolding c by (simp add: obs5_def supplied_def)
qed

subsection \<open>Scores stay in the unit interval\<close>

lemma mean_step_bounds:
  fixes x v :: real and k :: int
  assumes "0 \<le> x" "x \<le> 1" "0 \<le> v" "v \<le> 1" "0 \<le> k"
  shows "0 \<le> (x * real_of_int k + v) / real_of_int (k + 1)"
    and "(x * real_of_int k + v) / real_of_int (k + 1) \<le> 1"
proof -
  have pos: "0 < real_of_int (k + 1)" using assms(5) by simp
  have "0 \<le> x * real_of_int k" using assms(1,5) by simp
  then have num0: "0 \<le> x * real_of_int k + v" using assms(3) by linarith
  then show "0 \<le> (x * real_of_int k + v) / real_of_int (k + 1)"
    using pos by simp
  have "x * real_of_int k \<le> 1 * real_of_int k"
    using assms(2,5) by (intro mult_right_mono) simp_all
  then have "x * real_of_int k + v \<le> real_of_int (k + 1)" using assms(4) by simp
  then show "(x * real_of_int k + v) / real_of_int (k + 1) \<le> 1"
    using pos by (simp add: divide_le_eq)
qed

lemma sound_current:
  "sound_store tn \<Longrightarrow>
     0 \<le> interactions (current tn a)
     \<and> 0 \<le> reliability (current tn a) \<and> reliability (current tn a) \<le> 1
     \<and> 0 \<le> interaction_quality (current tn a) \<and> interaction_quality (current tn a) \<le> 1"
  by (auto simp: sound_store_def current_def new_profile_def split: option.splits)

lemma sound_store_update:
  assumes s: "sound_store tn" and q: "0 \<le> q" "q \<le> 1" and r: "0 \<le> r" "r \<le> 1"
  shows "(\<exists>p. fst (update_trust_profile tn a q r cs st ar) = Inr p)
       \<and> sound_store (snd (update_trust_profile tn a q r cs st ar))"
proof -
  let ?p0 = "current tn a"
  let ?n = "interactions ?p0 + 1"
  from sound_current [OF s, of a] have c:
    "0 \<le> interactions ?p0" "0 \<le> reliability ?p0" "reliability ?p0 \<le> 1"
    "0 \<le> interaction_quality ?p0" "interaction_quality ?p0 \<le> 1"
    by simp_all
  then have n: "?n \<noteq> 0" by linarith
  note b1 = mean_step_bounds [OF c(2,3) r c(1)]
  note b2 = mean_step_bounds [OF c(4,5) q c(1)]
  show ?thesis
    unfolding update_trust_profile_Inr [OF n]
    using s c(1) b1 b2
    by (auto simp: Let_def sound_store_def)
qed

lemma reachable_sound: "reachable jd w \<Longrightarrow> sound_store (trust_network (fst w))"
proof (induction rule: reachable.induct)
  case (reachable_empty t dk)
  then show ?case by (simp add: sound_store_def)
next
  case (reachable_update w quality reliability_score agent_id style strs areas)
  obtain t dk where w: "w = (t, dk)" by (cases w)
  from reachable_update have "sound_store (trust_network t)" by (simp add: w)
  from sound_store_update [OF this reachable_update(2-5)]
  show ?case by (simp add: w update_trust_trust_network)
qed

lemma sound_in_unit_interval: "sound_store tn \<Longrightarrow> in_unit_interval tn"
  by (simp add: sound_store_def in_unit_interval_def)

text \<open>
  C5. In every state reached from an empty dictionary by calls whose two scores lie in
  [0,1], every stored reliability and interaction quality lies in [0,1]; one more call
  with scores in [0,1] returns a profile (it does not raise) and leaves every stored
  reliability and interaction quality in [0,1]; the two reading methods leave the
  tracker as it is.
\<close>

theorem scores_stay_in_unit_interval:
  assumes "reachable jd w" and "0 \<le> q" "q \<le> 1" and "0 \<le> r" "r \<le> 1"
  shows "in_unit_interval (trust_network (fst w))
       \<and> (\<exists>p. fst (update_trust jd w a q r cs st ar) = Inr p)
       \<and> in_unit_interval (trust_network (fst (snd (update_trust jd w a q r cs st ar))))
       \<and> snd (get_agent_profile (fst w) b) = fst w
       \<and> snd (get_collaboration_recommendation (fst w) ids) = fst w"
proof -
  obtain t dk where w: "w = (t, dk)" by (cases w)
  from assms(1) have s: "sound_store (trust_network t)"
    using reachable_sound w by fastforce
  have g1: "snd (get_agent_profile t b) = t"
    by (simp add: get_agent_profile_def split: option.split)
  have g2: "snd (get_collaboration_recommendation t ids) = t"
    by (simp add: get_collaboration_recommendation_def Let_def split: sum.split list.split)
  from sound_store_update [OF s assms(2-5), of a cs st ar] s g1 g2 show ?thesis
    by (simp add: w update_trust_trust_network update_trust_outcome sound_in_unit_interval)
qed

theorem scores_stay_in_unit_interval_witness:
  "reachable no_dump (observe_all no_dump fresh_world [obs1])
   \<and> (\<exists>p. fst (update_trust no_dump (observe_all no_dump fresh_world [obs1]) ''agent1'' 1 0 None None None) = Inr p)
   \<and> in_unit_interval (trust_network (fst (snd
        (update_trust no_dump (observe_all no_dump fresh_world [obs1]) ''agent1'' 1 0 None None None))))"
proof -
  have "reachable no_dump fresh_world"
    unfolding fresh_world_def by (rule reachable_empty) simp
  then have r: "reachable no_dump (observe_all no_dump fresh_world [obs1])"
    unfolding observe_all_def observe_def obs1_def
    by (simp add: reachable_update)
  from scores_stay_in_unit_interval [OF r, of 1 0 "''agent1''" None None None] r
  show ?thesis by simp
qed

subsection \<open>Empty arguments\<close>

text \<open>
  C10. A call whose style is the empty string, or whose strengths or areas are the empty
  list, is the same call as the one where that argument is absent: outcome, tracker and
  disk are equal. When all three are empty or absent and the call does not raise, the
  style, the strengths and the areas of the profile are those it had, while the count,
  the reliability and the interaction quality are updated.
\<close>


theorem falsy_arguments_are_absent:
  "update_trust jd w a q r cs st ar =
     update_trust jd w a q r (if cs = Some [] then None else cs)
       (if st = Some [] then None else st) (if ar = Some [] then None else ar)
   \<and> (cs \<in> {None, Some []} \<and> st \<in> {None, Some []} \<and> ar \<in> {None, Some []}
        \<and> interactions (current (trust_network (fst w)) a) + 1 \<noteq> 0 \<longrightarrow>
      (\<exists>p. fst (update_trust jd w a q r cs st ar) = Inr p
         \<and> trust_network (fst (snd (update_trust jd w a q r cs st ar))) a = Some p
         \<and> collaboration_style p = collaboration_style (current (trust_network (fst w)) a)
         \<and> strengths p = strengths (current (trust_network (fst w)) a)
         \<and> areas_for_growth p = areas_for_growth (current (trust_network (fst w)) a)
         \<and> interactions p = interactions (current (trust_network (fst w)) a) + 1
         \<and> reliability p =
             (reliability (current (trust_network (fst w)) a) * real_of_int (interactions p - 1) + r)
               / real_of_int (interactions p)
         \<and> interaction_quality p =
             (interaction_quality (current (trust_network (fst w)) a) * real_of_int (interactions p - 1) + q)
               / real_of_int (interactions p)))"
proof (intro conjI impI)
  have "update_trust_profile tn a q r cs st ar =
     update_trust_profile tn a q r (if cs = Some [] then None else cs)
       (if st = Some [] then None else st) (if ar = Some [] then None else ar)" for tn
    by (simp add: update_trust_profile_def Let_def split: option.split)
  then show "update_trust jd w a q r cs st ar =
     update_trust jd w a q r (if cs = Some [] then None else cs)
       (if st = Some [] then None else st) (if ar = Some [] then None else ar)"
    unfolding update_trust_def by simp
next
  assume h: "cs \<in> {None, Some []} \<and> st \<in> {None, Some []} \<and> ar \<in> {None, Some []}
        \<and> interactions (current (trust_network (fst w)) a) + 1 \<noteq> 0"
  obtain t dk where w: "w = (t, dk)" by (cases w)
  from h have n: "interactions (current (trust_network t) a) + 1 \<noteq> 0" by (simp add: w)
  from h show "\<exists>p. fst (update_trust jd w a q r cs st ar) = Inr p
         \<and> trust_network (fst (snd (update_trust jd w a q r cs st ar))) a = Some p
         \<and> collaboration_style p = collaboration_style (current (trust_network (fst w)) a)
         \<and> strengths p = strengths (current (trust_network (fst w)) a)
         \<and> areas_for_growth p = areas_for_growth (current (trust_network (fst w)) a)
         \<and> interactions p = interactions (current (trust_network (fst w)) a) + 1
         \<and> reliability p =
             (reliability (current (trust_network (fst w)) a) * real_of_int (interactions p - 1) + r)
               / real_of_int (interactions p)
         \<and> interaction_quality p =
             (interaction_quality (current (trust_network (fst w)) a) * real_of_int (interactions p - 1) + q)
               / real_of_int (interactions p)"
    unfolding w update_trust_trust_network update_trust_outcome update_trust_profile_Inr [OF n]
    by (auto simp: Let_def)
qed

theorem falsy_arguments_are_absent_witness:
  "update_trust no_dump (observe_all no_dump fresh_world [obs1]) ''agent1'' 0.75 0.8 (Some []) (Some []) (Some [])
     = update_trust no_dump (observe_all no_dump fresh_world [obs1]) ''agent1'' 0.75 0.8 None None None
   \<and> (\<exists>p. fst (update_trust no_dump (observe_all no_dump fresh_world [obs1]) ''agent1'' 0.75 0.8
                  (Some []) (Some []) (Some [])) = Inr p
          \<and> collaboration_style p = ''analytical'' \<and> strengths p = [''data analysis'']
          \<and> areas_for_growth p = [] \<and> interactions p = 2 \<and> reliability p = 0.86
          \<and> interaction_quality p = 0.8)"
proof -
  have tn: "trust_network (fst (observe_all no_dump fresh_world [obs1])) =
      [''agent1'' \<mapsto> \<lparr>interactions = 1, reliability = 0.92, interaction_quality = 0.85,
                      collaboration_style = ''analytical'', strengths = [''data analysis''],
                      areas_for_growth = []\<rparr>]"
    by (simp add: observe_all_trust_network fresh_world_def observe_store_def
      obs1_def update_trust_profile_def new_profile_def Let_def)
  from falsy_arguments_are_absent [where jd = no_dump
      and w = "observe_all no_dump fresh_world [obs1]" and a = "''agent1''" and q = "0.75"
      and r = "0.8" and cs = "Some []" and st = "Some []" and ar = "Some []"]
  show ?thesis
    by (auto simp: tn current_def)
qed

section \<open>Properties of \<^verbatim>\<open>get_collaboration_recommendation\<close>\<close>

subsection \<open>Missing agents\<close>

lemma filter_absent_set:
  "set (filter (\<lambda>a. tn a = None) ids) = {a \<in> set ids. a \<notin> dom tn}"
  by (auto simp: dom_def)

text \<open>
  C3. When some requested id has no profile, the method returns the not-found result (a
  value, not a raise) whose list of missing agents holds exactly the requested ids that
  the store lacks; the result carries no score, and the tracker is as it was.
\<close>

theorem missing_agents_not_found:
  assumes "\<exists>a \<in> set agent_ids. trust_network t a = None"
  shows "\<exists>missing.
           get_collaboration_recommendation t agent_ids =
             (Inr (NotFound ''Agents not found in trust network'' missing), t)
           \<and> missing = filter (\<lambda>a. trust_network t a = None) agent_ids
           \<and> set missing = {a \<in> set agent_ids. a \<notin> dom (trust_network t)}"
proof -
  from assms have "filter (\<lambda>a. trust_network t a = None) agent_ids \<noteq> []"
    by (simp add: filter_empty_conv)
  then have "get_collaboration_recommendation t agent_ids =
      (Inr (NotFound ''Agents not found in trust network''
              (filter (\<lambda>a. trust_network t a = None) agent_ids)), t)"
    by (simp add: get_collaboration_recommendation_def)
  then show ?thesis
    using filter_absent_set [of "trust_network t" agent_ids] by blast
qed

theorem missing_agents_not_found_witness:
  "(\<exists>a \<in> set [''agent1'', ''ghost'', ''agent2'', ''phantom'']. trust_network demo_tracker a = None)
   \<and> get_collaboration_recommendation demo_tracker [''agent1'', ''ghost'', ''agent2'', ''phantom''] =
       (Inr (NotFound ''Agents not found in trust network'' [''ghost'', ''phantom'']), demo_tracker)"
  using missing_agents_not_found [of "[''agent1'', ''ghost'', ''agent2'', ''phantom'']" demo_tracker]
  by (simp add: demo_store)

subsection \<open>What the method returns\<close>

lemma lookup_all_present:
  "\<forall>a \<in> set ids. tn a \<noteq> None \<Longrightarrow> lookup_all tn ids = Inr (List.map_filter tn ids)"
  by (induction ids) auto

lemma map_filter_present:
  "\<forall>a \<in> set ids. tn a \<noteq> None \<Longrightarrow> List.map_filter tn ids = map (\<lambda>a. the (tn a)) ids"
  by (induction ids) auto

lemma length_requested:
  "\<forall>a \<in> set ids. trust_network t a \<noteq> None \<Longrightarrow> length (requested_profiles t ids) = length ids"
  by (simp add: requested_profiles_def map_filter_present)

lemma challenges_differ: "style_challenge \<noteq> reliability_challenge"
  by (simp add: style_challenge_def reliability_challenge_def)

lemma recommendation_when_present:
  assumes present: "\<forall>a \<in> set ids. trust_network t a \<noteq> None" and nonempty: "ids \<noteq> []"
  shows "\<exists>r. get_collaboration_recommendation t ids = (Inr (Recommendation r), t)
           \<and> collaboration_potential r = potential_of (raw_score t ids)
           \<and> collaboration_score r = round2 (raw_score t ids)
           \<and> common_strengths r =
               map fst (filter (\<lambda>(s, count). count > 1)
                 (count_strengths (concat (map strengths (requested_profiles t ids)))))
           \<and> unique_strengths r =
               map fst (filter (\<lambda>(s, count). count = 1)
                 (count_strengths (concat (map strengths (requested_profiles t ids)))))
           \<and> (style_challenge \<in> set (potential_challenges r) \<longleftrightarrow>
                card (requested_styles t ids) > 1 \<and> ''unknown'' \<notin> requested_styles t ids)"
proof -
  let ?ps = "requested_profiles t ids"
  from present have f: "filter (\<lambda>a. trust_network t a = None) ids = []"
    by (simp add: filter_empty_conv)
  from present have l: "lookup_all (trust_network t) ids = Inr ?ps"
    by (simp add: lookup_all_present requested_profiles_def)
  from present have len: "length ?ps = length ids" by (rule length_requested)
  with nonempty obtain p ps' where ps: "?ps = p # ps'" by (cases ?ps) auto
  show ?thesis
    unfolding get_collaboration_recommendation_def
    using nonempty len challenges_differ
    by (simp add: f l Let_def raw_score_def requested_styles_def, simp add: ps)
qed

lemma recommendation_raises_iff:
  "fst (get_collaboration_recommendation t ids) = Inl e \<longleftrightarrow> ids = [] \<and> e = ZeroDivisionError"
proof (cases "ids = []")
  case True
  then show ?thesis by (auto simp: get_collaboration_recommendation_def)
next
  case False
  show ?thesis
  proof (cases "\<forall>a \<in> set ids. trust_network t a \<noteq> None")
    case True
    from recommendation_when_present [OF True False] False show ?thesis by auto
  next
    case False
    then have "filter (\<lambda>a. trust_network t a = None) ids \<noteq> []"
      by (simp add: filter_empty_conv)
    with \<open>ids \<noteq> []\<close> show ?thesis
      by (simp add: get_collaboration_recommendation_def)
  qed
qed

subsection \<open>Counting strengths\<close>

lemma count_one_map_of:
  "map_of (count_one y acc) x =
     (if x = y then Some ((case map_of acc y of None \<Rightarrow> 0 | Some c \<Rightarrow> c) + 1) else map_of acc x)"
  by (simp add: count_one_def AList.update_conv')

lemma count_fold_map_of:
  "map_of (fold count_one xs acc) x =
     (case map_of acc x of
        None \<Rightarrow> if x \<in> set xs then Some (count_list xs x) else None
      | Some c \<Rightarrow> Some (c + count_list xs x))"
proof (induction xs arbitrary: acc)
  case Nil
  show ?case by (simp split: option.split)
next
  case (Cons y ys)
  show ?case
    unfolding fold_simps Cons count_one_map_of
    by (auto split: option.split)
qed

lemma count_fold_distinct:
  "distinct (map fst acc) \<Longrightarrow> distinct (map fst (fold count_one xs acc))"
  by (induction xs arbitrary: acc) (simp_all add: count_one_def AList.distinct_update)

lemma count_strengths_map_of:
  "map_of (count_strengths xs) x = (if x \<in> set xs then Some (count_list xs x) else None)"
  by (simp add: count_strengths_def count_fold_map_of)

lemma count_strengths_distinct: "distinct (map fst (count_strengths xs))"
  by (simp add: count_strengths_def count_fold_distinct)

lemma count_strengths_set:
  "set (count_strengths xs) = {(x, c). x \<in> set xs \<and> c = count_list xs x}"
proof -
  have "(x, c) \<in> set (count_strengths xs) \<longleftrightarrow> x \<in> set xs \<and> c = count_list xs x" for x c
    using map_of_eq_Some_iff [OF count_strengths_distinct, of xs x c]
    by (auto simp: count_strengths_map_of split: if_splits)
  then show ?thesis by auto
qed

lemma selected_strengths:
  "set (map fst (filter (\<lambda>(s, count). P count) (count_strengths xs))) =
     {x \<in> set xs. P (count_list xs x)}"
  by (auto simp: count_strengths_set image_iff)

lemma selected_distinct:
  "distinct (map fst (filter Q (count_strengths xs)))"
  using count_strengths_distinct [of xs] by (rule distinct_map_filter)

lemma count_list_pos: "x \<in> set xs \<longleftrightarrow> count_list xs x > 0"
  by (simp add: count_list_0_iff zero_less_iff_neq_zero)

lemma count_list_concat:
  "count_list (concat xss) x = sum_list (map (\<lambda>xs. count_list xs x) xss)"
  by (induction xss) simp_all

lemma count_list_distinct:
  "distinct xs \<Longrightarrow> count_list xs x = (if x \<in> set xs then 1 else 0)"
  by (induction xs) auto

lemma sum_list_indicator:
  "sum_list (map (\<lambda>y. if P y then 1 else 0) ys) = length (filter P ys)"
  by (induction ys) simp_all

lemma occurrences_distinct:
  assumes present: "\<forall>a \<in> set ids. trust_network t a \<noteq> None"
    and ids: "distinct ids"
    and lists: "\<forall>p \<in> set (requested_profiles t ids). distinct (strengths p)"
  shows "occurrences t ids x = agents_listing t ids x"
proof -
  let ?ps = "requested_profiles t ids"
  have ps: "?ps = map (\<lambda>a. the (trust_network t a)) ids"
    using present by (simp add: requested_profiles_def map_filter_present)
  have "occurrences t ids x = sum_list (map (\<lambda>p. count_list (strengths p) x) ?ps)"
    by (simp add: occurrences_def count_list_concat comp_def)
  also have "\<dots> = sum_list (map (\<lambda>p. if x \<in> set (strengths p) then 1 else 0) ?ps)"
    using lists by (intro arg_cong [where f = sum_list] map_cong) (simp_all add: count_list_distinct)
  also have "\<dots> = length (filter (\<lambda>p. x \<in> set (strengths p)) ?ps)"
    by (rule sum_list_indicator)
  also have "\<dots> = length (filter (\<lambda>a. x \<in> set (strengths (the (trust_network t a)))) ids)"
    by (simp add: ps filter_map comp_def)
  also have "\<dots> = length (filter (\<lambda>a. case trust_network t a of None \<Rightarrow> False
                                        | Some p \<Rightarrow> x \<in> set (strengths p)) ids)"
    using present by (intro arg_cong [where f = length] filter_cong) (auto split: option.split)
  finally show ?thesis
    using ids by (simp add: agents_listing_def distinct_remdups_id)
qed

subsection \<open>The concrete recommendations, evaluated\<close>

lemmas recommendation_eval =
  get_collaboration_recommendation_def Let_def count_strengths_def count_one_def
  potential_of_def round2_def recommendation_of_def

lemma demo_agents_1_3:
  "\<exists>r. get_collaboration_recommendation demo_tracker [''agent1'', ''agent3'']
          = (Inr (Recommendation r), demo_tracker)
       \<and> collaboration_potential r = ''high''
       \<and> potential_challenges r = [reliability_challenge]
       \<and> common_strengths r = [] \<and> unique_strengths r = [''data analysis'']"
  by (simp add: recommendation_eval demo_store cong: if_cong)

lemma demo_agents_1_2:
  "\<exists>r. get_collaboration_recommendation demo_tracker [''agent1'', ''agent2'']
          = (Inr (Recommendation r), demo_tracker)
       \<and> collaboration_potential r = ''very high''
       \<and> recommended_approach r = [''Leverage common strengths: data analysis'',
                                     ''Assign tasks based on unique agent strengths'']
       \<and> potential_challenges r = [style_challenge]
       \<and> common_strengths r = [''data analysis''] \<and> unique_strengths r = [''storytelling'']"
  by (simp add: recommendation_eval demo_store cong: if_cong)

lemma demo_agents_1_1:
  "\<exists>r. get_collaboration_recommendation demo_tracker [''agent1'', ''agent1'']
          = (Inr (Recommendation r), demo_tracker)
       \<and> collaboration_potential r = ''very high''
       \<and> potential_challenges r = []
       \<and> common_strengths r = [''data analysis''] \<and> unique_strengths r = []"
  by (simp add: recommendation_eval demo_store cong: if_cong)

lemma scored_store:
  "trust_network (scored x) =
     [''agent1'' \<mapsto> \<lparr>interactions = 1, reliability = x, interaction_quality = x,
                      collaboration_style = ''unknown'', strengths = [], areas_for_growth = []\<rparr>]"
  by (simp add: scored_def observe_trust_network fresh_world_def observe_store_def
      update_trust_profile_def new_profile_def Let_def)

lemma scored_raw: "raw_score (scored x) [''agent1''] = x"
  by (simp add: raw_score_def requested_profiles_def scored_store)

lemma round2_79999: "round2 (79999 / 100000) = 4 / 5"
  by (simp add: round2_def)

lemma demo_profiles_1_2:
  "requested_profiles demo_tracker [''agent1'', ''agent2''] =
     [\<lparr>interactions = 1, reliability = 0.92, interaction_quality = 0.85,
       collaboration_style = ''analytical'', strengths = [''data analysis''],
       areas_for_growth = []\<rparr>,
      \<lparr>interactions = 1, reliability = 0.75, interaction_quality = 0.78,
       collaboration_style = ''exploratory'',
       strengths = [''storytelling'', ''data analysis''],
       areas_for_growth = [''factual accuracy'']\<rparr>]"
  by (simp add: requested_profiles_def demo_store)

lemma demo_profiles_1_3:
  "requested_profiles demo_tracker [''agent1'', ''agent3''] =
     [\<lparr>interactions = 1, reliability = 0.92, interaction_quality = 0.85,
       collaboration_style = ''analytical'', strengths = [''data analysis''],
       areas_for_growth = []\<rparr>,
      \<lparr>interactions = 1, reliability = 0.5, interaction_quality = 0.5,
       collaboration_style = ''unknown'', strengths = [], areas_for_growth = []\<rparr>]"
  by (simp add: requested_profiles_def demo_store)

subsection \<open>Tiers\<close>

text \<open>
  C2. For a non-empty list of agents that all have a profile, the tier is decided by the
  score before rounding, with inclusive lower bounds: at least 0.8 is "very high", from
  0.6 up to but excluding 0.8 is "high", from 0.4 up to but excluding 0.6 is "moderate",
  below 0.4 is "challenging"; the score reported is the rounded one. (The boundary values
  0.8, 0.79999, 0.6, 0.4 and 0.39999 are evaluated after the theorem; 0.79999 is "high"
  although it is reported as 0.8.)
\<close>

theorem tier_thresholds:
  assumes present: "\<forall>a \<in> set ids. trust_network t a \<noteq> None" and nonempty: "ids \<noteq> []"
  shows "\<exists>r. get_collaboration_recommendation t ids = (Inr (Recommendation r), t)
           \<and> collaboration_score r = round2 (raw_score t ids)
           \<and> (raw_score t ids \<ge> 0.8 \<longrightarrow> collaboration_potential r = ''very high'')
           \<and> (0.6 \<le> raw_score t ids \<and> raw_score t ids < 0.8 \<longrightarrow> collaboration_potential r = ''high'')
           \<and> (0.4 \<le> raw_score t ids \<and> raw_score t ids < 0.6 \<longrightarrow> collaboration_potential r = ''moderate'')
           \<and> (raw_score t ids < 0.4 \<longrightarrow> collaboration_potential r = ''challenging'')"
proof -
  from recommendation_when_present [OF present nonempty] obtain r where
    r: "get_collaboration_recommendation t ids = (Inr (Recommendation r), t)"
    and p: "collaboration_potential r = potential_of (raw_score t ids)"
    and s: "collaboration_score r = round2 (raw_score t ids)"
    by blast
  from p have "raw_score t ids \<ge> 0.8 \<longrightarrow> collaboration_potential r = ''very high''"
    and "0.6 \<le> raw_score t ids \<and> raw_score t ids < 0.8 \<longrightarrow> collaboration_potential r = ''high''"
    and "0.4 \<le> raw_score t ids \<and> raw_score t ids < 0.6 \<longrightarrow> collaboration_potential r = ''moderate''"
    and "raw_score t ids < 0.4 \<longrightarrow> collaboration_potential r = ''challenging''"
    by (simp_all add: potential_of_def)
  with r s show ?thesis by blast
qed

theorem tier_thresholds_witness:
  "raw_score (scored 0.8) [''agent1''] = 0.8
   \<and> map_option collaboration_potential
        (recommendation_of (get_collaboration_recommendation (scored 0.8) [''agent1'']))
       = Some ''very high''
   \<and> raw_score (scored 0.79999) [''agent1''] = 0.79999
   \<and> map_option collaboration_potential
        (recommendation_of (get_collaboration_recommendation (scored 0.79999) [''agent1'']))
       = Some ''high''
   \<and> map_option collaboration_score
        (recommendation_of (get_collaboration_recommendation (scored 0.79999) [''agent1'']))
       = Some 0.8
   \<and> map_option collaboration_potential
        (recommendation_of (get_collaboration_recommendation (scored 0.6) [''agent1'']))
       = Some ''high''
   \<and> map_option collaboration_potential
        (recommendation_of (get_collaboration_recommendation (scored 0.4) [''agent1'']))
       = Some ''moderate''
   \<and> map_option collaboration_potential
        (recommendation_of (get_collaboration_recommendation (scored 0.39999) [''agent1'']))
       = Some ''challenging''"
proof -
  have h: "\<forall>a \<in> set [''agent1'']. trust_network (scored x) a \<noteq> None" for x
    by (simp add: scored_store)
  have n: "[''agent1''] \<noteq> []" by simp
  note w = tier_thresholds [OF h n]
  from w [of "0.8"] w [of "0.79999"] w [of "0.6"] w [of "0.4"] w [of "0.39999"]
  show ?thesis
    by (auto simp: scored_raw recommendation_of_def round2_79999)
qed

subsection \<open>The style challenge\<close>

text \<open>
  C7, as the code has it. For a non-empty list of agents that all have a profile, the
  style challenge is among the challenges exactly when the requested agents have more
  than one distinct collaboration style and none of these styles is "unknown".
\<close>

theorem style_challenge_iff:
  assumes present: "\<forall>a \<in> set ids. trust_network t a \<noteq> None" and nonempty: "ids \<noteq> []"
  shows "\<exists>r. get_collaboration_recommendation t ids = (Inr (Recommendation r), t)
           \<and> (style_challenge \<in> set (potential_challenges r) \<longleftrightarrow>
                card (requested_styles t ids) > 1 \<and> ''unknown'' \<notin> requested_styles t ids)"
  using recommendation_when_present [OF present nonempty] by blast

theorem style_challenge_iff_witness:
  "(\<exists>r. get_collaboration_recommendation demo_tracker [''agent1'', ''agent2'']
           = (Inr (Recommendation r), demo_tracker)
        \<and> style_challenge \<in> set (potential_challenges r))
   \<and> requested_styles demo_tracker [''agent1'', ''agent2''] = {''analytical'', ''exploratory''}
   \<and> card (requested_styles demo_tracker [''agent1'', ''agent2'']) = 2"
proof -
  have h: "\<forall>a \<in> set [''agent1'', ''agent2'']. trust_network demo_tracker a \<noteq> None"
    by (simp add: demo_store)
  have s: "requested_styles demo_tracker [''agent1'', ''agent2''] = {''analytical'', ''exploratory''}"
    by (simp add: requested_styles_def demo_profiles_1_2)
  have c: "card {''analytical'', ''exploratory''} = 2" by simp
  from style_challenge_iff [OF h] show ?thesis
    unfolding s by (auto simp: c)
qed

text \<open>
  C7 as stated fails: two agents with the styles "analytical" and "unknown" have more than
  one distinct style, not all of them "unknown", and the style challenge is not reported.
\<close>

theorem style_challenge_counterexample:
  "requested_styles demo_tracker [''agent1'', ''agent3''] = {''analytical'', ''unknown''}
   \<and> card (requested_styles demo_tracker [''agent1'', ''agent3'']) > 1
   \<and> \<not> requested_styles demo_tracker [''agent1'', ''agent3''] \<subseteq> {''unknown''}
   \<and> map_option (\<lambda>r. style_challenge \<in> set (potential_challenges r))
        (recommendation_of (get_collaboration_recommendation demo_tracker [''agent1'', ''agent3'']))
       = Some False"
proof -
  have s: "requested_styles demo_tracker [''agent1'', ''agent3''] = {''analytical'', ''unknown''}"
    by (simp add: requested_styles_def demo_profiles_1_3)
  from demo_agents_1_3 obtain r where
    "get_collaboration_recommendation demo_tracker [''agent1'', ''agent3'']
       = (Inr (Recommendation r), demo_tracker)"
    and "potential_challenges r = [reliability_challenge]"
    by blast
  then show ?thesis
    unfolding s by (simp add: recommendation_of_def challenges_differ)
qed

subsection \<open>Common and unique strengths\<close>

text \<open>
  C8, as the code has it. For a non-empty list of agents that all have a profile, the
  common strengths are exactly the strings that occur more than once, and the unique
  strengths exactly those that occur once, in the strengths lists of the requested agents
  taken together, one list per entry of the request. The two lists are disjoint, have no
  duplicates and together hold every strength of the requested agents. When the requested
  ids are distinct and no requested list has a duplicate, the number of occurrences of a
  string is the number of requested agents that list it.
\<close>

theorem strength_partition:
  assumes present: "\<forall>a \<in> set ids. trust_network t a \<noteq> None" and nonempty: "ids \<noteq> []"
  shows "\<exists>r. get_collaboration_recommendation t ids = (Inr (Recommendation r), t)
           \<and> set (common_strengths r) = {x. occurrences t ids x > 1}
           \<and> set (unique_strengths r) = {x. occurrences t ids x = 1}
           \<and> set (common_strengths r) \<inter> set (unique_strengths r) = {}
           \<and> set (common_strengths r) \<union> set (unique_strengths r)
               = (\<Union>p \<in> set (requested_profiles t ids). set (strengths p))
           \<and> distinct (common_strengths r) \<and> distinct (unique_strengths r)
           \<and> (distinct ids \<and> (\<forall>p \<in> set (requested_profiles t ids). distinct (strengths p)) \<longrightarrow>
                (\<forall>x. occurrences t ids x = agents_listing t ids x))"
proof -
  let ?all = "concat (map strengths (requested_profiles t ids))"
  from recommendation_when_present [OF present nonempty] obtain r where
    r: "get_collaboration_recommendation t ids = (Inr (Recommendation r), t)"
    and c: "common_strengths r = map fst (filter (\<lambda>(s, count). count > 1) (count_strengths ?all))"
    and u: "unique_strengths r = map fst (filter (\<lambda>(s, count). count = 1) (count_strengths ?all))"
    by blast
  have occ: "occurrences t ids x = count_list ?all x" for x by (simp add: occurrences_def)
  have mem: "x \<in> set ?all \<longleftrightarrow> count_list ?all x > 0" for x by (rule count_list_pos)
  have sc: "set (common_strengths r) = {x. occurrences t ids x > 1}"
    unfolding c selected_strengths occ using mem by auto
  have su: "set (unique_strengths r) = {x. occurrences t ids x = 1}"
    unfolding u selected_strengths occ using mem by auto
  have dj: "set (common_strengths r) \<inter> set (unique_strengths r) = {}"
    unfolding sc su by auto
  have un: "set (common_strengths r) \<union> set (unique_strengths r)
               = (\<Union>p \<in> set (requested_profiles t ids). set (strengths p))"
  proof -
    have "set (common_strengths r) \<union> set (unique_strengths r) = {x. count_list ?all x > 0}"
      unfolding sc su occ by auto
    also have "\<dots> = set ?all" using mem by auto
    also have "\<dots> = (\<Union>p \<in> set (requested_profiles t ids). set (strengths p))" by simp
    finally show ?thesis .
  qed
  have d: "distinct (common_strengths r)" "distinct (unique_strengths r)"
    unfolding c u by (rule selected_distinct)+
  have ag: "distinct ids \<and> (\<forall>p \<in> set (requested_profiles t ids). distinct (strengths p)) \<longrightarrow>
                (\<forall>x. occurrences t ids x = agents_listing t ids x)"
    using occurrences_distinct [OF present] by blast
  from r sc su dj un d ag show ?thesis by blast
qed

theorem strength_partition_witness:
  "trust_network demo_tracker ''agent1'' \<noteq> None
   \<and> trust_network demo_tracker ''agent2'' \<noteq> None
   \<and> distinct [''agent1'', ''agent2'']
   \<and> (\<exists>r. get_collaboration_recommendation demo_tracker [''agent1'', ''agent2'']
             = (Inr (Recommendation r), demo_tracker)
          \<and> common_strengths r = [''data analysis'']
          \<and> unique_strengths r = [''storytelling'']
          \<and> set (common_strengths r) = {x. occurrences demo_tracker [''agent1'', ''agent2''] x > 1}
          \<and> set (unique_strengths r) = {x. occurrences demo_tracker [''agent1'', ''agent2''] x = 1})
   \<and> occurrences demo_tracker [''agent1'', ''agent2''] ''data analysis'' = 2
   \<and> agents_listing demo_tracker [''agent1'', ''agent2''] ''data analysis'' = 2"
proof -
  have h: "\<forall>a \<in> set [''agent1'', ''agent2'']. trust_network demo_tracker a \<noteq> None"
    by (simp add: demo_store)
  have o: "occurrences demo_tracker [''agent1'', ''agent2''] ''data analysis'' = 2"
    by (simp add: occurrences_def demo_profiles_1_2)
  have a: "agents_listing demo_tracker [''agent1'', ''agent2''] ''data analysis'' = 2"
    by (simp add: agents_listing_def demo_store)
  from demo_agents_1_2 obtain r' where
    e: "get_collaboration_recommendation demo_tracker [''agent1'', ''agent2'']
          = (Inr (Recommendation r'), demo_tracker)"
    and c: "common_strengths r' = [''data analysis'']" "unique_strengths r' = [''storytelling'']"
    by blast
  from strength_partition [OF h] h o a e c show ?thesis
    by auto
qed

text \<open>
  C8 as stated fails when an id is requested twice: the one strength of \<^verbatim>\<open>agent1\<close> is
  reported as common although only one agent lists it.
\<close>

theorem strength_partition_counterexample:
  "map_option common_strengths
     (recommendation_of (get_collaboration_recommendation demo_tracker [''agent1'', ''agent1'']))
     = Some [''data analysis'']
   \<and> agents_listing demo_tracker [''agent1'', ''agent1''] ''data analysis'' = 1
   \<and> \<not> agents_listing demo_tracker [''agent1'', ''agent1''] ''data analysis'' > 1"
proof -
  have a: "agents_listing demo_tracker [''agent1'', ''agent1''] ''data analysis'' = 1"
    by (simp add: agents_listing_def demo_store)
  from demo_agents_1_1 obtain r where
    "get_collaboration_recommendation demo_tracker [''agent1'', ''agent1'']
       = (Inr (Recommendation r), demo_tracker)"
    and "common_strengths r = [''data analysis'']"
    by blast
  then show ?thesis
    unfolding a by (simp add: recommendation_of_def)
qed

section \<open>Raising\<close>

lemma get_agent_profile_never_raises:
  "\<exists>res. get_agent_profile t a = (Inr res, t)"
  by (simp add: get_agent_profile_def split: option.split)

lemma update_trust_raises_iff:
  "fst (update_trust jd (t, dk) a q r cs st ar) = Inl e \<longleftrightarrow>
     interactions (current (trust_network t) a) = - 1 \<and> e = ZeroDivisionError"
proof (cases "interactions (current (trust_network t) a) + 1 = 0")
  case True
  then have "interactions (current (trust_network t) a) = - 1" by linarith
  with True show ?thesis
    by (auto simp: update_trust_outcome update_trust_profile_def current_def new_profile_def Let_def
        split: option.splits)
next
  case False
  then have "interactions (current (trust_network t) a) \<noteq> - 1" by linarith
  with update_trust_profile_Inr [OF False] show ?thesis
    by (simp add: update_trust_outcome Let_def)
qed

text \<open>
  C4. The claim is that no operation raises. For a tracker whose dictionary has the shape
  of this model, \<^verbatim>\<open>get_agent_profile\<close> never does, and \<^verbatim>\<open>update_trust\<close> only on a stored
  count of \<open>-1\<close>, which the tracker never writes (a dictionary of another shape, loaded
  from a file, is outside the model and can make them raise); but
  \<^verbatim>\<open>get_collaboration_recommendation\<close> on the empty list of ids finds no missing agent
  and divides by the length of the list: it raises \<^verbatim>\<open>ZeroDivisionError\<close>, whatever the
  tracker holds.
\<close>

theorem empty_request_raises:
  "get_collaboration_recommendation t [] = (Inl ZeroDivisionError, t)"
  by (simp add: get_collaboration_recommendation_def)

section \<open>What is written to the file\<close>

text \<open>
  The three ways a save can end, and what a returning \<^verbatim>\<open>update_trust\<close> leaves on the
  disk. Whether a later \<^verbatim>\<open>json.load\<close> of the document gives the dictionary back is a
  property of the text Python's \<^verbatim>\<open>json\<close> module writes for floats and strings, which is
  not part of this model.
\<close>

lemma save_written:
  "on_write dk (data_path t) = Written \<Longrightarrow>
   files (save_network json_dump t dk) =
     (files dk)(data_path t \<mapsto> Document (json_dump (trust_network t)))"
  by (simp add: save_network_def)

lemma save_refused:
  "on_write dk (data_path t) = Refused \<Longrightarrow> save_network json_dump t dk = dk"
  by (simp add: save_network_def)

lemma save_interrupted:
  "on_write dk (data_path t) = Interrupted \<Longrightarrow>
   files (save_network json_dump t dk) = (files dk)(data_path t \<mapsto> Truncated)"
  by (simp add: save_network_def)

lemma save_other_files:
  "path \<noteq> data_path t \<Longrightarrow> files (save_network json_dump t dk) path = files dk path"
  by (simp add: save_network_def split: write_attempt.split)

lemma update_trust_disk:
  "fst (update_trust jd (t, dk) a q r cs st ar) = Inr p \<Longrightarrow>
   snd (snd (update_trust jd (t, dk) a q r cs st ar)) =
     save_network jd (fst (snd (update_trust jd (t, dk) a q r cs st ar))) dk"
  by (auto simp: update_trust_def Let_def split: prod.splits sum.splits)

lemma update_trust_data_path:
  "data_path (fst (snd (update_trust jd (t, dk) a q r cs st ar))) = data_path t"
  by (auto simp: update_trust_def Let_def split: prod.splits sum.splits)

end
